theory Spec2Isabelle
  imports Complex_Main "HOL-Library.Word" "HOL-Library.Multiset"
begin

unbundle bit_operations_syntax

section \<open>Data model\<close>

text \<open>
  A \<open>QVector3D\<close> is a point with three \<open>float\<close> coordinates. The mesh generator computes
  with them; there the coordinates are modelled as real numbers (rounding of the 32-bit
  floats is not modelled). The exporters only copy or print coordinates, so they are
  polymorphic in the coordinate type and take the printing and encoding routines of the
  runtime library as parameters.
\<close>

datatype 'a QVector3D = QVector3D (vec_x: 'a) (vec_y: 'a) (vec_z: 'a)

text \<open>\<open>struct MeshConfig\<close> of meshgenerator.h, field by field.\<close>

record MeshConfig =
  minThickness :: real
  totalThickness :: real
  frameBorder :: real
  width :: real
  frameSlopeFactor :: real
  enableStabilizers :: bool
  permanentStabilizers :: bool
  stabilizerThreshold :: real
  stabilizerHeightFactor :: real
  enableHangers :: bool
  hangerCount :: int
  enableSegmentation :: bool
  backsideSegments :: int
  frameSegments :: int

text \<open>
  The grayscale image after \<open>convertToFormat(Format_Grayscale8)\<close>: its dimensions and its
  scanlines, \<open>constScanLine img r x\<close> being byte \<open>x\<close> of scanline \<open>r\<close> (scanline 0 is the
  top row of the picture). A \<open>QImage\<close> has no negative dimension, so they are naturals;
  Qt creates no image with a width of zero and a height other than zero.
\<close>

record QImage =
  imageWidth :: nat
  imageHeight :: nat
  constScanLine :: "nat \<Rightarrow> nat \<Rightarrow> 8 word"

text \<open>The members of \<open>class MeshGenerator\<close>.\<close>

record MeshGenerator =
  m_config :: MeshConfig
  m_mesh :: "real QVector3D list"
  m_meshDimensions :: "real \<times> real"
  m_widthFactor :: real
  m_depthFactor :: real
  m_border :: real

section \<open>Mesh generator (meshgenerator.cpp)\<close>

definition scaleVertex :: "MeshGenerator \<Rightarrow> real \<Rightarrow> real \<Rightarrow> real \<Rightarrow> real QVector3D" where
  "scaleVertex g x y z =
     QVector3D (x * m_widthFactor g + m_border g) (y * m_widthFactor g + m_border g) z"

subsection \<open>Surface tessellator\<close>

text \<open>
  The first loop nest of \<open>generateLithophane\<close>: the zero-initialised \<open>depthBuffer\<close> of
  \<open>width * height\<close> floats is filled row by row, row \<open>y\<close> from scanline \<open>height - 1 - y\<close>.
\<close>

definition depthBuffer :: "MeshGenerator \<Rightarrow> QImage \<Rightarrow> real list" where
  "depthBuffer g img =
     (let height = imageHeight img; width = imageWidth img in
      fold (\<lambda>y buf.
              fold (\<lambda>x buf. buf[y * width + x :=
                                   real (unat (constScanLine img (height - 1 - y) x)) * m_depthFactor g])
                   [0..<width] buf)
           [0..<height] (replicate (width * height) 0))"

text \<open>
  The body of the inner loop over \<open>x\<close> (the vertices it appends): for the first row the
  top and the bottom wall, then the two triangles of the cell.
\<close>

definition lithophaneCell :: "MeshGenerator \<Rightarrow> QImage \<Rightarrow> nat \<Rightarrow> nat \<Rightarrow> real QVector3D list" where
  "lithophaneCell g img y x =
     (let minThickness = - minThickness (m_config g);
          height = imageHeight img; width = imageWidth img;
          buffer = depthBuffer g img;
          topRow = (\<lambda>i. buffer ! i);
          bottomRow = (\<lambda>i. buffer ! ((height - 1) * width + i));
          row = (\<lambda>i. buffer ! (y * width + i));
          nextRow = (\<lambda>i. buffer ! (y * width + width + i));
          topRightDepth = row (x + 1);
          topDepth = row x;
          bottomDepth = nextRow x;
          bottomRightDepth = nextRow (x + 1)
      in (if y = 0 then
            [scaleVertex g (real (x + 1)) 0 (topRow (x + 1)),
             scaleVertex g (real x) 0 (topRow x),
             scaleVertex g (real x) 0 minThickness,

             scaleVertex g (real x) 0 minThickness,
             scaleVertex g (real (x + 1)) 0 minThickness,
             scaleVertex g (real (x + 1)) 0 (topRow (x + 1)),

             scaleVertex g (real x) (real (height - 1)) minThickness,
             scaleVertex g (real x) (real (height - 1)) (bottomRow x),
             scaleVertex g (real (x + 1)) (real (height - 1)) (bottomRow (x + 1)),

             scaleVertex g (real (x + 1)) (real (height - 1)) (bottomRow (x + 1)),
             scaleVertex g (real (x + 1)) (real (height - 1)) minThickness,
             scaleVertex g (real x) (real (height - 1)) minThickness]
          else []) @
         [scaleVertex g (real x) (real y) topDepth,
          scaleVertex g (real (x + 1)) (real (y + 1)) bottomRightDepth,
          scaleVertex g (real x) (real (y + 1)) bottomDepth,

          scaleVertex g (real x) (real y) topDepth,
          scaleVertex g (real (x + 1)) (real y) topRightDepth,
          scaleVertex g (real (x + 1)) (real (y + 1)) bottomRightDepth])"

text \<open>
  The body of the loop over \<open>y\<close>: the left wall, the cells of the row, the right wall, all
  appended to \<open>localMesh\<close>.
\<close>

definition lithophaneRow ::
  "MeshGenerator \<Rightarrow> QImage \<Rightarrow> nat \<Rightarrow> real QVector3D list \<Rightarrow> real QVector3D list" where
  "lithophaneRow g img y localMesh =
     (let minThickness = - minThickness (m_config g);
          width = imageWidth img;
          buffer = depthBuffer g img;
          row = (\<lambda>i. buffer ! (y * width + i));
          nextRow = (\<lambda>i. buffer ! (y * width + width + i));
          leftDepth = row 0;
          leftNextDepth = nextRow 0;
          localMesh = localMesh @
            [scaleVertex g 0 (real y) minThickness,
             scaleVertex g 0 (real y) leftDepth,
             scaleVertex g 0 (real (y + 1)) leftNextDepth,

             scaleVertex g 0 (real (y + 1)) leftNextDepth,
             scaleVertex g 0 (real (y + 1)) minThickness,
             scaleVertex g 0 (real y) minThickness];
          localMesh = fold (\<lambda>x localMesh. localMesh @ lithophaneCell g img y x)
                           [0..<width - 1] localMesh;
          rightNextDepth = nextRow (width - 1);
          rightDepth = row (width - 1)
      in localMesh @
            [scaleVertex g (real (width - 1)) (real (y + 1)) rightNextDepth,
             scaleVertex g (real (width - 1)) (real y) rightDepth,
             scaleVertex g (real (width - 1)) (real y) minThickness,

             scaleVertex g (real (width - 1)) (real y) minThickness,
             scaleVertex g (real (width - 1)) (real (y + 1)) minThickness,
             scaleVertex g (real (width - 1)) (real (y + 1)) rightNextDepth])"

text \<open>
  \<open>generateLithophane\<close> as built without OpenMP: \<open>localMesh\<close> is \<open>m_mesh\<close> and the rows are
  processed in order. Every read of
  \<open>depthBuffer\<close> is in range when the image is at least one pixel wide.
\<close>

definition generateLithophane :: "QImage \<Rightarrow> MeshGenerator \<Rightarrow> MeshGenerator" where
  "generateLithophane img g =
     g\<lparr>m_mesh := fold (lithophaneRow g img) [0..<imageHeight img - 1] (m_mesh g)\<rparr>"

text \<open>
  The build with OpenMP: every thread appends the rows it is handed to a list of its
  own, and after the parallel region the lists are appended to \<open>m_mesh\<close> in thread order.
  A schedule gives, for each thread, the rows it processed, in order; the dynamic
  scheduler hands every row of the loop to exactly one thread.
\<close>

definition generateLithophaneOpenMP :: "nat list list \<Rightarrow> QImage \<Rightarrow> MeshGenerator \<Rightarrow> MeshGenerator" where
  "generateLithophaneOpenMP schedule img g =
     (let threadMeshes = map (\<lambda>rows. fold (lithophaneRow g img) rows []) schedule
      in g\<lparr>m_mesh := fold (\<lambda>localMesh mesh. mesh @ localMesh) threadMeshes (m_mesh g)\<rparr>)"

subsection \<open>Backside\<close>

definition generateBackside :: "QImage \<Rightarrow> MeshGenerator \<Rightarrow> MeshGenerator" where
  "generateBackside img g =
     (let minThickness = - minThickness (m_config g);
          height = imageHeight img; width = imageWidth img
      in g\<lparr>m_mesh := m_mesh g @
            [scaleVertex g 0 (real (height - 1)) minThickness,
             scaleVertex g (real (width - 1)) (real (height - 1)) minThickness,
             scaleVertex g 0 0 minThickness,

             scaleVertex g (real (width - 1)) (real (height - 1)) minThickness,
             scaleVertex g (real (width - 1)) 0 minThickness,
             scaleVertex g 0 0 minThickness]\<rparr>)"

definition generateSegmentedBackside :: "QImage \<Rightarrow> MeshGenerator \<Rightarrow> MeshGenerator" where
  "generateSegmentedBackside img g = generateBackside img g"

subsection \<open>Frame\<close>

definition generateFrame :: "real \<Rightarrow> real \<Rightarrow> MeshGenerator \<Rightarrow> MeshGenerator" where
  "generateFrame = (\<lambda>width height g.
     (let minThickness = minThickness (m_config g);
          depth = totalThickness (m_config g) - minThickness;
          frameSlope = depth * frameSlopeFactor (m_config g);
          border = frameBorder (m_config g)
      in g\<lparr>m_mesh := m_mesh g @ [
      QVector3D width height (- minThickness), QVector3D 0 height (- minThickness), QVector3D 0 height depth,
      QVector3D width height (- minThickness), QVector3D 0 height depth, QVector3D width height depth,
      QVector3D (width - border - frameSlope) (border + frameSlope) 0, QVector3D (width - border - frameSlope) (height - border - frameSlope) 0, QVector3D (border + frameSlope) (height - border - frameSlope) 0,
      QVector3D (width - border - frameSlope) (border + frameSlope) 0, QVector3D (border + frameSlope) (height - border - frameSlope) 0, QVector3D (border + frameSlope) (border + frameSlope) 0,
      QVector3D 0 0 depth, QVector3D 0 height depth, QVector3D 0 height (- minThickness),
      QVector3D 0 0 depth, QVector3D 0 height (- minThickness), QVector3D 0 0 (- minThickness),
      QVector3D 0 0 (- minThickness), QVector3D width 0 (- minThickness), QVector3D width 0 depth,
      QVector3D 0 0 (- minThickness), QVector3D width 0 depth, QVector3D 0 0 depth,
      QVector3D width 0 (- minThickness), QVector3D width height (- minThickness), QVector3D width height depth,
      QVector3D width 0 (- minThickness), QVector3D width height depth, QVector3D width 0 depth,
      QVector3D 0 0 (- minThickness), QVector3D 0 height (- minThickness), QVector3D width height (- minThickness),
      QVector3D 0 0 (- minThickness), QVector3D width height (- minThickness), QVector3D width 0 (- minThickness),
      QVector3D border border depth, QVector3D border (height - border) depth, QVector3D 0 height depth,
      QVector3D border border depth, QVector3D 0 height depth, QVector3D 0 0 depth,
      QVector3D (width - border) (height - border) depth, QVector3D (width - border) border depth, QVector3D width 0 depth,
      QVector3D (width - border) (height - border) depth, QVector3D width 0 depth, QVector3D width height depth,
      QVector3D border (height - border) depth, QVector3D (width - border) (height - border) depth, QVector3D width height depth,
      QVector3D border (height - border) depth, QVector3D width height depth, QVector3D 0 height depth,
      QVector3D (width - border) border depth, QVector3D border border depth, QVector3D 0 0 depth,
      QVector3D (width - border) border depth, QVector3D 0 0 depth, QVector3D width 0 depth,
      QVector3D (border + frameSlope) (border + frameSlope) 0, QVector3D (border + frameSlope) (height - border - frameSlope) 0, QVector3D border (height - border) depth,
      QVector3D (border + frameSlope) (border + frameSlope) 0, QVector3D border (height - border) depth, QVector3D border border depth,
      QVector3D (width - border - frameSlope) (height - border - frameSlope) 0, QVector3D (width - border - frameSlope) (border + frameSlope) 0, QVector3D (width - border) border depth,
      QVector3D (width - border - frameSlope) (height - border - frameSlope) 0, QVector3D (width - border) border depth, QVector3D (width - border) (height - border) depth,
      QVector3D (border + frameSlope) (height - border - frameSlope) 0, QVector3D (width - border - frameSlope) (height - border - frameSlope) 0, QVector3D (width - border) (height - border) depth,
      QVector3D (border + frameSlope) (height - border - frameSlope) 0, QVector3D (width - border) (height - border) depth, QVector3D border (height - border) depth,
      QVector3D (width - border - frameSlope) (border + frameSlope) 0, QVector3D (border + frameSlope) (border + frameSlope) 0, QVector3D border border depth,
      QVector3D (width - border - frameSlope) (border + frameSlope) 0, QVector3D border border depth, QVector3D (width - border) border depth]\<rparr>))"

subsection \<open>Stabilizers\<close>

definition addSingleStabilizer ::
  "real \<Rightarrow> real \<Rightarrow> real \<Rightarrow> real \<Rightarrow> real \<Rightarrow> real \<Rightarrow> MeshGenerator \<Rightarrow> MeshGenerator" where
  "addSingleStabilizer = (\<lambda>x stabHeight depth minThickness totalThickness zDelta g.
     (let stabWidth = min (m_border g) 4;
          h = stabHeight;
          g = (let z = totalThickness - minThickness in g\<lparr>m_mesh := m_mesh g @ [
      QVector3D x 0 (z + 1 - zDelta), QVector3D x 0 (z + depth), QVector3D x h (z + 3),
      QVector3D x h (z + 3), QVector3D x h (z + 1 - zDelta), QVector3D x (h - 1) (z + 1 - zDelta),
      QVector3D x h (z + 3), QVector3D x (h - 1) (z + 1 - zDelta), QVector3D x 0 (z + 1 - zDelta),
      QVector3D (x + stabWidth) h (z + 3), QVector3D (x + stabWidth) 0 (z + depth), QVector3D (x + stabWidth) 0 (z + 1 - zDelta),
      QVector3D (x + stabWidth) (h - 1) (z + 1 - zDelta), QVector3D (x + stabWidth) h (z + 1 - zDelta), QVector3D (x + stabWidth) h (z + 3),
      QVector3D (x + stabWidth) 0 (z + 1 - zDelta), QVector3D (x + stabWidth) (h - 1) (z + 1 - zDelta), QVector3D (x + stabWidth) h (z + 3),
      QVector3D (x + 1) h (z + 1 - zDelta), QVector3D x h (z + 1 - zDelta), QVector3D x h (z + 3),
      QVector3D x h (z + 3), QVector3D (x + stabWidth) h (z + 3), QVector3D (x + stabWidth) h (z + 1 - zDelta),
      QVector3D (x + stabWidth - 1) h (z + 1 - zDelta), QVector3D (x + 1) h (z + 1 - zDelta), QVector3D x h (z + 3),
      QVector3D x h (z + 3), QVector3D (x + stabWidth) h (z + 1 - zDelta), QVector3D (x + stabWidth - 1) h (z + 1 - zDelta),
      QVector3D x 0 (z + depth), QVector3D x 0 (z + 1 - zDelta), QVector3D (x + stabWidth) 0 (z + 1 - zDelta),
      QVector3D x 0 (z + depth), QVector3D (x + stabWidth) 0 (z + 1 - zDelta), QVector3D (x + stabWidth) 0 (z + depth),
      QVector3D x h (z + 3), QVector3D x 0 (z + depth), QVector3D (x + stabWidth) 0 (z + depth),
      QVector3D x h (z + 3), QVector3D (x + stabWidth) 0 (z + depth), QVector3D (x + stabWidth) h (z + 3),
      QVector3D (x + 1) (h - 1) (z + 1 - zDelta), QVector3D (x + 1) h (z + 1 - zDelta), QVector3D (x + stabWidth - 1) h (z + 1 - zDelta),
      QVector3D (x + 1) (h - 1) (z + 1 - zDelta), QVector3D (x + stabWidth - 1) h (z + 1 - zDelta), QVector3D (x + stabWidth - 1) (h - 1) (z + 1 - zDelta)]\<rparr>)
      in (let z = - minThickness in g\<lparr>m_mesh := m_mesh g @ [
      QVector3D (x + stabWidth) 0 (z - 1 + zDelta), QVector3D (x + stabWidth) 0 (z - depth), QVector3D (x + stabWidth) h (z - 3),
      QVector3D (x + stabWidth) h (z - 3), QVector3D (x + stabWidth) h (z - 1 + zDelta), QVector3D (x + stabWidth) (h - 1) (z - 1 + zDelta),
      QVector3D (x + stabWidth) h (z - 3), QVector3D (x + stabWidth) (h - 1) (z - 1 + zDelta), QVector3D (x + stabWidth) 0 (z - 1 + zDelta),
      QVector3D x h (z - 3), QVector3D x 0 (z - depth), QVector3D x 0 (z - 1 + zDelta),
      QVector3D x (h - 1) (z - 1 + zDelta), QVector3D x h (z - 1 + zDelta), QVector3D x h (z - 3),
      QVector3D x 0 (z - 1 + zDelta), QVector3D x (h - 1) (z - 1 + zDelta), QVector3D x h (z - 3),
      QVector3D (x + stabWidth - 1) h (z - 1 + zDelta), QVector3D (x + stabWidth) h (z - 1 + zDelta), QVector3D (x + stabWidth) h (z - 3),
      QVector3D (x + stabWidth) h (z - 3), QVector3D x h (z - 3), QVector3D x h (z - 1 + zDelta),
      QVector3D (x + 1) h (z - 1 + zDelta), QVector3D (x + stabWidth - 1) h (z - 1 + zDelta), QVector3D (x + stabWidth) h (z - 3),
      QVector3D (x + stabWidth) h (z - 3), QVector3D x h (z - 1 + zDelta), QVector3D (x + 1) h (z - 1 + zDelta),
      QVector3D (x + stabWidth) 0 (z - depth), QVector3D (x + stabWidth) 0 (z - 1 + zDelta), QVector3D x 0 (z - 1 + zDelta),
      QVector3D (x + stabWidth) 0 (z - depth), QVector3D x 0 (z - 1 + zDelta), QVector3D x 0 (z - depth),
      QVector3D (x + stabWidth) h (z - 3), QVector3D (x + stabWidth) 0 (z - depth), QVector3D x 0 (z - depth),
      QVector3D (x + stabWidth) h (z - 3), QVector3D x 0 (z - depth), QVector3D x h (z - 3),
      QVector3D (x + stabWidth - 1) (h - 1) (z - 1 + zDelta), QVector3D (x + stabWidth - 1) h (z - 1 + zDelta), QVector3D (x + 1) h (z - 1 + zDelta),
      QVector3D (x + stabWidth - 1) (h - 1) (z - 1 + zDelta), QVector3D (x + 1) h (z - 1 + zDelta), QVector3D (x + 1) (h - 1) (z - 1 + zDelta)]\<rparr>)))"

definition generateStabilizers :: "real \<Rightarrow> real \<Rightarrow> MeshGenerator \<Rightarrow> MeshGenerator" where
  "generateStabilizers = (\<lambda>width height g.
     (let stabHeight = height * stabilizerHeightFactor (m_config g);
          stabWidth = min (m_border g) 4;
          depth = stabHeight * 0.5;
          minThickness = minThickness (m_config g);
          totalThickness = totalThickness (m_config g);
          zDelta = (if permanentStabilizers (m_config g) then 1 else 0);
          g = addSingleStabilizer 0 stabHeight depth minThickness totalThickness zDelta g
      in addSingleStabilizer (width - stabWidth) stabHeight depth minThickness totalThickness
           zDelta g))"

subsection \<open>Hangers\<close>

text \<open>
  The loop \<open>for (int i = 0; i < noOfHangers; ++i)\<close> carries the running position \<open>x\<close> and the
  mesh; it runs \<open>nat noOfHangers\<close> times (not at all for a count below one).
\<close>

definition hangerStep :: "real \<Rightarrow> real \<Rightarrow> nat \<Rightarrow> real \<times> real QVector3D list \<Rightarrow> real \<times> real QVector3D list" where
  "hangerStep = (\<lambda>height xDelta i (x, mesh).
     (x + xDelta * 2, mesh @ [
      QVector3D (x + 3) height 0, QVector3D x height 0, QVector3D (x + 3) (height + 3) 0,
      QVector3D (x + 3) (height + 3) 0, QVector3D (x + 6) (height + 3) 0, QVector3D (x + 9) height 0,
      QVector3D (x + 9) height 0, QVector3D (x + 6) height 0, QVector3D (x + 5) (height + 1) 0,
      QVector3D (x + 4) (height + 1) 0, QVector3D (x + 3) height 0, QVector3D (x + 3) (height + 3) 0,
      QVector3D (x + 3) (height + 3) 0, QVector3D (x + 9) height 0, QVector3D (x + 5) (height + 1) 0,
      QVector3D (x + 3) (height + 3) 0, QVector3D (x + 5) (height + 1) 0, QVector3D (x + 4) (height + 1) 0,
      QVector3D (x + 3) (height + 3) 2, QVector3D x height 2, QVector3D (x + 3) height 2,
      QVector3D (x + 3) (height + 3) 2, QVector3D (x + 3) height 2, QVector3D (x + 4) (height + 1) 2,
      QVector3D (x + 9) height 2, QVector3D (x + 6) (height + 3) 2, QVector3D (x + 3) (height + 3) 2,
      QVector3D (x + 5) (height + 1) 2, QVector3D (x + 6) height 2, QVector3D (x + 9) height 2,
      QVector3D (x + 3) (height + 3) 2, QVector3D (x + 4) (height + 1) 2, QVector3D (x + 5) (height + 1) 2,
      QVector3D (x + 5) (height + 1) 2, QVector3D (x + 9) height 2, QVector3D (x + 3) (height + 3) 2,
      QVector3D (x + 5) (height + 1) 0, QVector3D (x + 6) height 0, QVector3D (x + 6) height 2,
      QVector3D (x + 5) (height + 1) 0, QVector3D (x + 6) height 2, QVector3D (x + 5) (height + 1) 2,
      QVector3D (x + 6) (height + 3) 0, QVector3D (x + 3) (height + 3) 0, QVector3D (x + 3) (height + 3) 2,
      QVector3D (x + 6) (height + 3) 0, QVector3D (x + 3) (height + 3) 2, QVector3D (x + 6) (height + 3) 2]))"

definition generateHangers :: "real \<Rightarrow> real \<Rightarrow> MeshGenerator \<Rightarrow> MeshGenerator" where
  "generateHangers = (\<lambda>width height g.
     (let noOfHangers = hangerCount (m_config g);
          xDelta = (width / real_of_int noOfHangers) / 2;
          x = xDelta - 4.5
      in g\<lparr>m_mesh := snd (fold (hangerStep height xDelta) [0..<nat noOfHangers] (x, m_mesh g))\<rparr>))"

subsection \<open>Orchestrator\<close>

text \<open>
  The start of \<open>generate\<close>: the mesh is cleared and the factors are pre-calculated.
  \<open>totalHeight\<close> is the local constant of that name.
\<close>

definition precalculate :: "MeshGenerator \<Rightarrow> QImage \<Rightarrow> MeshGenerator" where
  "precalculate g grayscaleImage =
     (let g = g\<lparr>m_mesh := []\<rparr>;
          g = g\<lparr>m_border := frameBorder (m_config g)\<rparr>;
          g = g\<lparr>m_depthFactor := (totalThickness (m_config g) - minThickness (m_config g)) / 255\<rparr>;
          g = g\<lparr>m_widthFactor :=
                 (width (m_config g) - (m_border g * 2)) / real (imageWidth grayscaleImage)\<rparr>
      in g)"

definition totalHeight :: "MeshGenerator \<Rightarrow> QImage \<Rightarrow> real" where
  "totalHeight g grayscaleImage =
     (let g = precalculate g grayscaleImage
      in (m_border g * 2) + (real (imageHeight grayscaleImage) * m_widthFactor g))"

text \<open>
  \<open>generate\<close> returns the final state of the generator; the buffer handed to the caller is
  its \<open>m_mesh\<close>. The capacity reservation, the log lines and the progress callback do not
  change the buffer and are left out.
\<close>

definition generate :: "MeshGenerator \<Rightarrow> QImage \<Rightarrow> MeshGenerator" where
  "generate g grayscaleImage =
     (let totalHeight = totalHeight g grayscaleImage;
          g = precalculate g grayscaleImage;
          g = g\<lparr>m_meshDimensions := (width (m_config g), totalHeight)\<rparr>;
          g = generateLithophane grayscaleImage g;
          g = (if enableSegmentation (m_config g) \<and> backsideSegments (m_config g) > 1
               then generateSegmentedBackside grayscaleImage g
               else generateBackside grayscaleImage g);
          g = generateFrame (width (m_config g)) totalHeight g;
          g = (if enableStabilizers (m_config g) \<and> totalHeight > stabilizerThreshold (m_config g)
               then generateStabilizers (width (m_config g)) totalHeight g
               else g);
          g = (if enableHangers (m_config g)
               then generateHangers (width (m_config g)) totalHeight g
               else g)
      in g)"

section \<open>Exporters\<close>

subsection \<open>Result record, runtime library and file system\<close>

text \<open>\<open>struct ExportResult\<close> of exporter.h.\<close>

record ExportResult =
  success :: bool
  errorMessage :: string
  bytesWritten :: int

text \<open>
  Files hold bytes. The file system maps a path to the contents of the file stored there;
  \<open>canOpen\<close> tells for which paths \<open>QFile::open\<close> for writing succeeds and \<open>errorString\<close>
  is the text \<open>QFile::errorString\<close> returns after a failed open. Directories are not
  represented, and a write to an open file is taken to succeed.
\<close>

type_synonym byte = "8 word"

record FileSystem =
  files :: "string \<rightharpoonup> byte list"
  canOpen :: "string \<Rightarrow> bool"
  errorString :: "string \<Rightarrow> string"

text \<open>
  What is observed of the archiving subprocess of the 3MF exporter: the value of
  \<open>waitForFinished(30000)\<close> (false when the process is still running after 30 s), the
  value \<open>exitCode()\<close> returns after that call, and the file system it leaves behind.
\<close>

record ProcessRun =
  finishedInTime :: bool
  exitCode :: int
  fsAfter :: FileSystem

text \<open>
  The routines of the runtime library (Qt, the C++ runtime) and of the host that the
  exporters rely on and whose code is not part of the repository. They are parameters of
  the model:
  \<^item> \<open>floatBits\<close>: the 32 bits stored in memory for a \<open>float\<close>;
  \<^item> \<open>argF6\<close>, \<open>argG6\<close>: \<open>QString::arg(double, 0, 'f', 6)\<close> and \<open>QString::arg(double, 0, 'g', 6)\<close>;
  \<^item> \<open>streamF6\<close>: \<open>QTextStream << float\<close> in fixed notation with precision 6;
  \<^item> \<open>sizeBeforeStreamFlush\<close>: what \<open>QFile::size\<close> returns for a file whose text was
    written through a \<open>QTextStream\<close> that has not been flushed yet (the stream buffers
    its output and hands it to the file when the file is closed), as a function of the
    text written so far;
  \<^item> \<open>tempDir\<close>: the scratch directory name built from \<open>QDir::temp()\<close> and the clock;
  \<^item> \<open>runArchiver\<close>: the run of the external \<open>zip\<close> process, given the file system it
    starts in, its working directory and the archive path.
  The byte order of the host is little-endian, and \<open>QObject::tr\<close> returns its argument
  (no translation is installed).
\<close>

record 'a Runtime =
  floatBits :: "'a \<Rightarrow> 32 word"
  argF6 :: "'a \<Rightarrow> string"
  argG6 :: "'a \<Rightarrow> string"
  streamF6 :: "'a \<Rightarrow> string"
  sizeBeforeStreamFlush :: "string \<Rightarrow> int"
  tempDir :: string
  runArchiver :: "FileSystem \<Rightarrow> string \<Rightarrow> string \<Rightarrow> ProcessRun"

definition newline :: string where
  "newline = [CHR 0x0A]"

definition tab :: string where
  "tab = [CHR 0x09]"

definition toBytes :: "string \<Rightarrow> byte list" where
  "toBytes s = map of_char s"

text \<open>The memory image of a 32-bit and of a 16-bit value on the little-endian host.\<close>

definition le32 :: "32 word \<Rightarrow> byte list" where
  "le32 w = [ucast w, ucast (drop_bit 8 w), ucast (drop_bit 16 w), ucast (drop_bit 24 w)]"

definition le16 :: "16 word \<Rightarrow> byte list" where
  "le16 w = [ucast w, ucast (drop_bit 8 w)]"

text \<open>Decimal digits of a non-negative integer, as \<open>QString::arg(int)\<close> and the text stream print it.\<close>

function showNat :: "nat \<Rightarrow> string" where
  "showNat n = (if n < 10 then [char_of (48 + n)]
                else showNat (n div 10) @ [char_of (48 + n mod 10)])"
  by pat_completeness auto
termination
  by (relation "measure (\<lambda>n. n)") auto

text \<open>Opening a file for writing creates it or truncates it; the whole content is then written.\<close>

definition writeFile :: "string \<Rightarrow> byte list \<Rightarrow> FileSystem \<Rightarrow> FileSystem" where
  "writeFile path content fs = fs\<lparr>files := (files fs)(path \<mapsto> content)\<rparr>"

subsection \<open>STL exporter (stlexporter.cpp)\<close>

datatype StlFormat = Binary | Ascii

text \<open>
  The 80 bytes of \<open>header\<close> after \<open>memset\<close> and \<open>strncpy(header, "LithoMaker Export", 79)\<close>:
  \<open>strncpy\<close> fills 79 bytes with the text followed by zeros, the last byte stays zero.
\<close>

definition stlHeader :: "byte list" where
  "stlHeader = take 79 (toBytes ''LithoMaker Export'' @ replicate 79 0) @ [0]"

text \<open>
  One iteration of the triangle loop of \<open>exportBinary\<close>, for \<open>i = 3 * k\<close>: the normal (three
  floats \<open>0.0f\<close>, whose bits are all zero), the vertices \<open>mesh.at(i + j)\<close> and the attribute
  byte count.
\<close>

definition binaryVertex :: "'a Runtime \<Rightarrow> 'a QVector3D \<Rightarrow> byte list" where
  "binaryVertex lib v =
     le32 (floatBits lib (vec_x v)) @ le32 (floatBits lib (vec_y v)) @ le32 (floatBits lib (vec_z v))"

definition binaryTriangle :: "'a Runtime \<Rightarrow> 'a QVector3D list \<Rightarrow> nat \<Rightarrow> byte list" where
  "binaryTriangle lib mesh k =
     (let i = 3 * k in
      (le32 0 @ le32 0 @ le32 0) @
      concat (map (\<lambda>j. binaryVertex lib (mesh ! (i + j))) [0..<3]) @
      le16 0)"

text \<open>
  The loop \<open>for (int i = 0; i < mesh.size(); i += 3)\<close> runs \<open>(size + 2) div 3\<close> times. The
  function is private and only called with a size divisible by three, so \<open>mesh.at\<close> is
  always in range; the loop counter is an \<open>int\<close>, so the size is below \<open>2^31\<close>.
\<close>

definition binaryContent :: "'a Runtime \<Rightarrow> 'a QVector3D list \<Rightarrow> byte list" where
  "binaryContent lib mesh =
     (let triangleCount = (of_nat (length mesh div 3) :: 32 word) in
      stlHeader @ le32 triangleCount @
      concat (map (binaryTriangle lib mesh) [0..<(length mesh + 2) div 3]))"

definition exportBinary ::
  "'a Runtime \<Rightarrow> 'a QVector3D list \<Rightarrow> string \<Rightarrow> FileSystem \<Rightarrow> ExportResult \<times> FileSystem" where
  "exportBinary lib mesh filePath fs =
     (if \<not> canOpen fs filePath
      then (\<lparr>success = False,
             errorMessage = ''Cannot open file for writing: '' @ errorString fs filePath,
             bytesWritten = 0\<rparr>, fs)
      else (let fs = writeFile filePath (binaryContent lib mesh) fs;
                written = (case files fs filePath of Some c \<Rightarrow> int (length c) | None \<Rightarrow> 0)
            in (\<lparr>success = True, errorMessage = [], bytesWritten = written\<rparr>, fs)))"

definition asciiTriangle :: "'a Runtime \<Rightarrow> 'a QVector3D list \<Rightarrow> nat \<Rightarrow> string" where
  "asciiTriangle lib mesh k =
     (let i = 3 * k in
      ''facet normal 0.0 0.0 0.0'' @ newline @
      tab @ ''outer loop'' @ newline @
      concat (map (\<lambda>j. let v = mesh ! (i + j) in
                     tab @ tab @ ''vertex '' @ argG6 lib (vec_x v) @ '' '' @ argG6 lib (vec_y v)
                       @ '' '' @ argG6 lib (vec_z v) @ newline) [0..<3]) @
      tab @ ''endloop'' @ newline @
      ''endfacet'' @ newline)"

definition asciiContent :: "'a Runtime \<Rightarrow> 'a QVector3D list \<Rightarrow> byte list" where
  "asciiContent lib mesh =
     toBytes (''solid lithophane'' @ newline @
              concat (map (asciiTriangle lib mesh) [0..<(length mesh + 2) div 3]) @
              ''endsolid'' @ newline)"

definition exportAscii ::
  "'a Runtime \<Rightarrow> 'a QVector3D list \<Rightarrow> string \<Rightarrow> FileSystem \<Rightarrow> ExportResult \<times> FileSystem" where
  "exportAscii lib mesh filePath fs =
     (if \<not> canOpen fs filePath
      then (\<lparr>success = False,
             errorMessage = ''Cannot open file for writing: '' @ errorString fs filePath,
             bytesWritten = 0\<rparr>, fs)
      else (let fs = writeFile filePath (asciiContent lib mesh) fs;
                written = (case files fs filePath of Some c \<Rightarrow> int (length c) | None \<Rightarrow> 0)
            in (\<lparr>success = True, errorMessage = [], bytesWritten = written\<rparr>, fs)))"

definition StlExporter_exportMesh ::
  "StlFormat \<Rightarrow> 'a Runtime \<Rightarrow> 'a QVector3D list \<Rightarrow> string \<Rightarrow> FileSystem
     \<Rightarrow> ExportResult \<times> FileSystem" where
  "StlExporter_exportMesh m_format lib mesh filePath fs =
     (if mesh = [] then (\<lparr>success = False, errorMessage = ''Empty mesh'', bytesWritten = 0\<rparr>, fs)
      else if length mesh mod 3 \<noteq> 0
      then (\<lparr>success = False, errorMessage = ''Invalid mesh: vertex count not divisible by 3'',
             bytesWritten = 0\<rparr>, fs)
      else if m_format = Binary then exportBinary lib mesh filePath fs
      else exportAscii lib mesh filePath fs)"

subsection \<open>Vertex deduplication of the OBJ and the 3MF exporter\<close>

definition getVertexKey :: "'a Runtime \<Rightarrow> 'a QVector3D \<Rightarrow> string" where
  "getVertexKey lib v =
     argF6 lib (vec_x v) @ ''_'' @ argF6 lib (vec_y v) @ ''_'' @ argF6 lib (vec_z v)"

text \<open>
  Both exporters run the same loop over the mesh, with the state \<open>vertexMap\<close>,
  \<open>uniqueVertices\<close> and the list of indices; they differ in the index given to the first
  vertex (\<open>base\<close> is 1 for OBJ and 0 for 3MF). \<open>vertexMap[key]\<close> on a \<open>QMap\<close> yields 0 for a
  key that is absent.
\<close>

definition dedupStep ::
  "'a Runtime \<Rightarrow> nat \<Rightarrow> 'a QVector3D \<Rightarrow> (string \<rightharpoonup> nat) \<times> 'a QVector3D list \<times> nat list
     \<Rightarrow> (string \<rightharpoonup> nat) \<times> 'a QVector3D list \<times> nat list" where
  "dedupStep lib base v = (\<lambda>(vertexMap, uniqueVertices, indices).
     (let key = getVertexKey lib v;
          (vertexMap, uniqueVertices) =
            (if vertexMap key = None
             then (vertexMap(key \<mapsto> length uniqueVertices + base), uniqueVertices @ [v])
             else (vertexMap, uniqueVertices))
      in (vertexMap, uniqueVertices,
          indices @ [case vertexMap key of Some i \<Rightarrow> i | None \<Rightarrow> 0])))"

definition deduplicate ::
  "'a Runtime \<Rightarrow> nat \<Rightarrow> 'a QVector3D list \<Rightarrow> (string \<rightharpoonup> nat) \<times> 'a QVector3D list \<times> nat list" where
  "deduplicate lib base mesh = fold (dedupStep lib base) mesh (Map.empty, [], [])"

subsection \<open>OBJ exporter (objexporter.cpp)\<close>

definition objContent :: "'a Runtime \<Rightarrow> 'a QVector3D list \<Rightarrow> string" where
  "objContent lib mesh =
     (let (vertexMap, uniqueVertices, faceIndices) = deduplicate lib 1 mesh in
      ''# LithoMaker Export'' @ newline @
      ''# Triangles: '' @ showNat (length mesh div 3) @ newline @ newline @
      ''o lithophane'' @ newline @ newline @
      concat (map (\<lambda>v. ''v '' @ streamF6 lib (vec_x v) @ '' '' @ streamF6 lib (vec_y v) @ '' ''
                         @ streamF6 lib (vec_z v) @ newline) uniqueVertices) @
      newline @ ''# Faces'' @ newline @
      concat (map (\<lambda>k. let i = 3 * k in
                     ''f '' @ showNat (faceIndices ! i) @ '' '' @ showNat (faceIndices ! (i + 1))
                       @ '' '' @ showNat (faceIndices ! (i + 2)) @ newline)
                  [0..<(length faceIndices + 2) div 3]))"

text \<open>
  \<open>written\<close> is read from \<open>file.size()\<close> before the file is closed, while the text is still
  with the text stream.
\<close>

definition ObjExporter_exportMesh ::
  "'a Runtime \<Rightarrow> 'a QVector3D list \<Rightarrow> string \<Rightarrow> FileSystem \<Rightarrow> ExportResult \<times> FileSystem" where
  "ObjExporter_exportMesh lib mesh filePath fs =
     (if mesh = [] then (\<lparr>success = False, errorMessage = ''Empty mesh'', bytesWritten = 0\<rparr>, fs)
      else if length mesh mod 3 \<noteq> 0
      then (\<lparr>success = False, errorMessage = ''Invalid mesh: vertex count not divisible by 3'',
             bytesWritten = 0\<rparr>, fs)
      else if \<not> canOpen fs filePath
      then (\<lparr>success = False,
             errorMessage = ''Cannot open file for writing: '' @ errorString fs filePath,
             bytesWritten = 0\<rparr>, fs)
      else (let out = objContent lib mesh;
                written = sizeBeforeStreamFlush lib out;
                fs = writeFile filePath (toBytes out) fs
            in (\<lparr>success = True, errorMessage = [], bytesWritten = written\<rparr>, fs)))"

subsection \<open>3MF exporter (threemfexporter.cpp)\<close>

definition generateContentTypesXml :: string where
  \<open>generateContentTypesXml =
     ''<?xml version="1.0" encoding="UTF-8"?>'' @ newline @
     ''<Types xmlns="http://schemas.openxmlformats.org/package/2006/content-types">'' @ newline @
     ''  <Default Extension="rels" ContentType="application/vnd.openxmlformats-package.relationships+xml"/>'' @ newline @
     ''  <Default Extension="model" ContentType="application/vnd.ms-package.3dmanufacturing-3dmodel+xml"/>'' @ newline @
     ''</Types>'' @ newline\<close>

definition generateRelsXml :: string where
  \<open>generateRelsXml =
     ''<?xml version="1.0" encoding="UTF-8"?>'' @ newline @
     ''<Relationships xmlns="http://schemas.openxmlformats.org/package/2006/relationships">'' @ newline @
     ''  <Relationship Target="/3D/3dmodel.model" Id="rel0" Type="http://schemas.microsoft.com/3dmanufacturing/2013/01/3dmodel"/>'' @ newline @
     ''</Relationships>'' @ newline\<close>

definition generateModelXml :: "'a Runtime \<Rightarrow> 'a QVector3D list \<Rightarrow> string" where
  \<open>generateModelXml lib mesh =
     (let (vertexMap, uniqueVertices, triangleIndices) = deduplicate lib 0 mesh in
      ''<?xml version="1.0" encoding="UTF-8"?>'' @ newline @
      ''<model unit="millimeter" xmlns="http://schemas.microsoft.com/3dmanufacturing/core/2015/02">'' @ newline @
      ''  <resources>'' @ newline @
      ''    <object id="1" type="model">'' @ newline @
      ''      <mesh>'' @ newline @
      ''        <vertices>'' @ newline @
      concat (map (\<lambda>v. ''          <vertex x="'' @ argF6 lib (vec_x v) @ ''" y="'' @ argF6 lib (vec_y v)
                         @ ''" z="'' @ argF6 lib (vec_z v) @ ''"/>'' @ newline) uniqueVertices) @
      ''        </vertices>'' @ newline @ ''        <triangles>'' @ newline @
      concat (map (\<lambda>k. let i = 3 * k in
                     ''          <triangle v1="'' @ showNat (triangleIndices ! i) @ ''" v2="''
                       @ showNat (triangleIndices ! (i + 1)) @ ''" v3="''
                       @ showNat (triangleIndices ! (i + 2)) @ ''"/>'' @ newline)
                  [0..<(length triangleIndices + 2) div 3]) @
      ''        </triangles>'' @ newline @
      ''      </mesh>'' @ newline @
      ''    </object>'' @ newline @
      ''  </resources>'' @ newline @
      ''  <build>'' @ newline @
      ''    <item objectid="1"/>'' @ newline @
      ''  </build>'' @ newline @
      ''</model>'' @ newline)\<close>

text \<open>
  The three content files are written where they can be opened (a failure to open one
  is ignored by the exporter).
\<close>

definition writeIfOpen :: "string \<Rightarrow> string \<Rightarrow> FileSystem \<Rightarrow> FileSystem" where
  "writeIfOpen path text fs = (if canOpen fs path then writeFile path (toBytes text) fs else fs)"

text \<open>\<open>QDir(dir).removeRecursively()\<close>: no file below \<open>dir\<close> is left.\<close>

definition removeRecursively :: "string \<Rightarrow> FileSystem \<Rightarrow> FileSystem" where
  "removeRecursively dir fs =
     fs\<lparr>files := (\<lambda>p. if take (length dir + 1) p = dir @ ''/'' then None else files fs p)\<rparr>"

text \<open>
  \<open>exportMesh\<close> as compiled for Linux and macOS (the \<open>zip\<close> command). The value of
  \<open>waitForFinished\<close> is not used by the exporter; \<open>success\<close> is decided by the exit code
  alone.
\<close>

definition ThreeMfExporter_exportMesh ::
  "'a Runtime \<Rightarrow> 'a QVector3D list \<Rightarrow> string \<Rightarrow> FileSystem \<Rightarrow> ExportResult \<times> FileSystem" where
  "ThreeMfExporter_exportMesh lib mesh filePath fs =
     (if mesh = [] then (\<lparr>success = False, errorMessage = ''Empty mesh'', bytesWritten = 0\<rparr>, fs)
      else if length mesh mod 3 \<noteq> 0
      then (\<lparr>success = False, errorMessage = ''Invalid mesh: vertex count not divisible by 3'',
             bytesWritten = 0\<rparr>, fs)
      else
       (let tempDir = tempDir lib;
            fs = writeIfOpen (tempDir @ ''/[Content_Types].xml'') generateContentTypesXml fs;
            fs = writeIfOpen (tempDir @ ''/_rels/.rels'') generateRelsXml fs;
            fs = writeIfOpen (tempDir @ ''/3D/3dmodel.model'') (generateModelXml lib mesh) fs;
            process = runArchiver lib fs tempDir filePath;
            fs = fsAfter process;
            success = (exitCode process = 0);
            fs = removeRecursively tempDir fs
        in if \<not> success
           then (\<lparr>success = False, errorMessage = ''Failed to create 3MF archive'',
                  bytesWritten = 0\<rparr>, fs)
           else (let size = (case files fs filePath of Some c \<Rightarrow> int (length c) | None \<Rightarrow> 0)
                 in (\<lparr>success = True, errorMessage = [], bytesWritten = size\<rparr>, fs))))"

subsection \<open>Selection of the exporter\<close>

text \<open>
  The classes derived from \<open>Exporter\<close> and the virtual call \<open>exporter->exportMesh\<close>.
\<close>

datatype Exporter = StlExporter StlFormat | ObjExporter | ThreeMfExporter

fun exportMesh ::
  "Exporter \<Rightarrow> 'a Runtime \<Rightarrow> 'a QVector3D list \<Rightarrow> string \<Rightarrow> FileSystem
     \<Rightarrow> ExportResult \<times> FileSystem" where
  "exportMesh (StlExporter m_format) lib mesh filePath fs =
     StlExporter_exportMesh m_format lib mesh filePath fs"
| "exportMesh ObjExporter lib mesh filePath fs = ObjExporter_exportMesh lib mesh filePath fs"
| "exportMesh ThreeMfExporter lib mesh filePath fs = ThreeMfExporter_exportMesh lib mesh filePath fs"

subsection \<open>Reading a binary STL file\<close>

text \<open>
  Modelled from the spec: the repository contains no STL reader. The reader follows the
  layout the specification gives for binary STL: an 80-byte header, a little-endian
  32-bit triangle count, then for each triangle 12 bytes of normal, three vertices of
  three little-endian 32-bit floats each, and a 16-bit attribute count. It returns the
  triangle count and the vertices (as the bits of their floats), or nothing when the
  file does not have that many bytes.
\<close>

definition fromLe32 :: "byte list \<Rightarrow> 32 word" where
  "fromLe32 bs =
     (ucast (bs ! 0) :: 32 word) OR push_bit 8 (ucast (bs ! 1)) OR push_bit 16 (ucast (bs ! 2))
       OR push_bit 24 (ucast (bs ! 3))"

definition readVertex :: "byte list \<Rightarrow> 32 word QVector3D" where
  "readVertex bs =
     QVector3D (fromLe32 (take 4 bs)) (fromLe32 (take 4 (drop 4 bs))) (fromLe32 (take 4 (drop 8 bs)))"

fun readTriangles :: "nat \<Rightarrow> byte list \<Rightarrow> 32 word QVector3D list option" where
  "readTriangles 0 bs = (if bs = [] then Some [] else None)"
| "readTriangles (Suc n) bs =
     (if length bs < 50 then None
      else (case readTriangles n (drop 50 bs) of
              None \<Rightarrow> None
            | Some vs \<Rightarrow>
                Some (readVertex (drop 12 bs) # readVertex (drop 24 bs) # readVertex (drop 36 bs) # vs)))"

definition readBinaryStl :: "byte list \<Rightarrow> (nat \<times> 32 word QVector3D list) option" where
  "readBinaryStl bs =
     (if length bs < 84 then None
      else (let n = unat (fromLe32 (take 4 (drop 80 bs))) in
            case readTriangles n (drop 84 bs) of
              None \<Rightarrow> None
            | Some vs \<Rightarrow> Some (n, vs)))"

section \<open>Reference inputs and auxiliary notions\<close>

text \<open>
  The default member initialisers of \<open>MeshConfig\<close> and of \<open>MeshGenerator\<close>, and an image
  whose samples all have the same value.
\<close>

definition defaultConfig :: MeshConfig where
  "defaultConfig = \<lparr>minThickness = 0.8, totalThickness = 4.0, frameBorder = 3.0, width = 200.0,
     frameSlopeFactor = 0.75, enableStabilizers = True, permanentStabilizers = False,
     stabilizerThreshold = 60.0, stabilizerHeightFactor = 0.15, enableHangers = True,
     hangerCount = 2, enableSegmentation = False, backsideSegments = 1, frameSegments = 1\<rparr>"

definition defaultGenerator :: MeshGenerator where
  "defaultGenerator = \<lparr>m_config = defaultConfig, m_mesh = [], m_meshDimensions = (0, 0),
     m_widthFactor = 1, m_depthFactor = 1, m_border = 0\<rparr>"

definition uniformImage :: "nat \<Rightarrow> nat \<Rightarrow> 8 word \<Rightarrow> QImage" where
  "uniformImage w h s = \<lparr>imageWidth = w, imageHeight = h, constScanLine = (\<lambda>r x. s)\<rparr>"

text \<open>The generator state in which \<open>generate\<close> calls \<open>generateLithophane\<close>.\<close>

definition surfaceState :: "MeshGenerator \<Rightarrow> QImage \<Rightarrow> MeshGenerator" where
  "surfaceState g img = (precalculate g img)\<lparr>m_meshDimensions := (width (m_config g), totalHeight g img)\<rparr>"






definition scenarioConfig :: MeshConfig where
  "scenarioConfig = \<lparr>minThickness = 0.8, totalThickness = 4.0, frameBorder = 3.0, width = 50,
     frameSlopeFactor = 0.75, enableStabilizers = False, permanentStabilizers = False,
     stabilizerThreshold = 60.0, stabilizerHeightFactor = 0.15, enableHangers = False,
     hangerCount = 2, enableSegmentation = False, backsideSegments = 1, frameSegments = 1\<rparr>"

definition scenarioGenerator :: MeshGenerator where
  "scenarioGenerator = defaultGenerator\<lparr>m_config := scenarioConfig\<rparr>"






text \<open>
  Inputs for the exporters: the coordinates are given by the bits of their floats; both
  triangles of \<open>sharedMesh\<close> use the first and the third vertex. \<open>exampleRuntime\<close> has an
  archiver that exits with code 0 after writing a one-byte archive, the archiver of
  \<open>stalledRuntime\<close> is still running when the wait ends. Every path of \<open>emptyFs\<close> can be
  opened, none of \<open>readOnlyFs\<close>.
\<close>

definition exampleTriangle :: "32 word QVector3D list" where
  "exampleTriangle = [QVector3D 0 0 0, QVector3D 1 0 0, QVector3D 0 1 0]"


definition exampleRuntime :: "32 word Runtime" where
  "exampleRuntime = \<lparr>floatBits = (\<lambda>w. w), argF6 = (\<lambda>w. showNat (unat w)),
     argG6 = (\<lambda>w. showNat (unat w)), streamF6 = (\<lambda>w. showNat (unat w)),
     sizeBeforeStreamFlush = (\<lambda>s. 0), tempDir = ''/tmp/lithomaker_3mf_0'',
     runArchiver = (\<lambda>fs dir path.
        \<lparr>finishedInTime = True, exitCode = 0, fsAfter = writeFile path [0] fs\<rparr>)\<rparr>"

definition stalledRuntime :: "32 word Runtime" where
  "stalledRuntime = exampleRuntime\<lparr>runArchiver := (\<lambda>fs dir path.
        \<lparr>finishedInTime = False, exitCode = 0, fsAfter = fs\<rparr>)\<rparr>"

definition emptyFs :: FileSystem where
  "emptyFs = \<lparr>files = Map.empty, canOpen = (\<lambda>p. True), errorString = (\<lambda>p. [])\<rparr>"


section \<open>Properties of the mesh generator\<close>

subsection \<open>Buffer growth of every stage\<close>

lemma fold_append_concat: "fold (\<lambda>x m. m @ f x) xs m = m @ concat (map f xs)"
  by (induction xs arbitrary: m) simp_all

lemma length_lithophaneCell: "length (lithophaneCell g img y x) = (if y = 0 then 18 else 6)"
  by (simp add: lithophaneCell_def Let_def)

lemma lithophaneRow_append: "lithophaneRow g img y m = m @ lithophaneRow g img y []"
  by (simp add: lithophaneRow_def Let_def fold_append_concat)

lemma fold_lithophaneRow:
  "fold (lithophaneRow g img) ys m = m @ concat (map (\<lambda>y. lithophaneRow g img y []) ys)"
proof (induction ys arbitrary: m)
  case Nil
  show ?case by simp
next
  case (Cons y ys)
  show ?case by (simp add: Cons.IH lithophaneRow_append [of g img y m])
qed

lemma length_concat_const:
  "(\<And>x. x \<in> set xs \<Longrightarrow> length (f x) = c) \<Longrightarrow> length (concat (map f xs)) = c * length xs"
  by (induction xs) simp_all

lemma length_lithophaneRow:
  "length (lithophaneRow g img y []) = 12 + (if y = 0 then 18 else 6) * (imageWidth img - 1)"
  by (simp add: lithophaneRow_def Let_def fold_append_concat length_concat_const [where c = "if y = 0 then 18 else 6"]
       length_lithophaneCell)

lemma length_rows_from:
  "length (concat (map (\<lambda>y. lithophaneRow g img y []) [Suc 0..<n])) =
     (n - 1) * (12 + 6 * (imageWidth img - 1))"
proof -
  have "length (concat (map (\<lambda>y. lithophaneRow g img y []) [Suc 0..<n])) =
        (12 + 6 * (imageWidth img - 1)) * length [Suc 0..<n]"
    by (rule length_concat_const) (simp add: length_lithophaneRow)
  then show ?thesis by (simp add: mult.commute)
qed

lemma length_generateLithophane:
  assumes "2 \<le> imageHeight img"
  shows "length (m_mesh (generateLithophane img g)) =
           length (m_mesh g) + 12 * (imageWidth img - 1)
             + (imageHeight img - 1) * (12 + 6 * (imageWidth img - 1))"
proof -
  define k where "k = imageWidth img - 1"
  from assms obtain m where m: "imageHeight img - Suc 0 = Suc m"
    by (cases "imageHeight img - Suc 0") auto
  have rows: "[0..<Suc m] = 0 # [Suc 0..<Suc m]"
    by (simp add: upt_conv_Cons)
  have "length (concat (map (\<lambda>y. lithophaneRow g img y []) [0..<Suc m])) =
          (12 + 18 * k) + m * (12 + 6 * k)"
    unfolding rows using length_rows_from [of g img "Suc m"]
    by (simp add: length_lithophaneRow k_def)
  also have "\<dots> = 12 * k + Suc m * (12 + 6 * k)"
    by simp
  finally show ?thesis
    by (simp add: generateLithophane_def fold_lithophaneRow m k_def del: upt_Suc)
qed

lemma length_generateBackside: "length (m_mesh (generateBackside img g)) = length (m_mesh g) + 6"
  by (simp add: generateBackside_def Let_def)

lemma length_generateFrame: "length (m_mesh (generateFrame w h g)) = length (m_mesh g) + 84"
  by (simp add: generateFrame_def Let_def)

lemma length_addSingleStabilizer:
  "length (m_mesh (addSingleStabilizer x sh d mt tt zd g)) = length (m_mesh g) + 96"
  by (simp add: addSingleStabilizer_def Let_def)

lemma length_generateStabilizers:
  "length (m_mesh (generateStabilizers w h g)) = length (m_mesh g) + 192"
  by (simp add: generateStabilizers_def Let_def length_addSingleStabilizer)

lemma length_hanger_fold:
  "length (snd (fold (hangerStep h xd) is (x, m))) = length m + 48 * length is"
  by (induction "is" arbitrary: x m) (simp_all add: hangerStep_def)

lemma length_generateHangers:
  "length (m_mesh (generateHangers w h g)) = length (m_mesh g) + 48 * nat (hangerCount (m_config g))"
  by (simp add: generateHangers_def Let_def length_hanger_fold)

lemma dvd_length_concat:
  "(\<And>x. x \<in> set xs \<Longrightarrow> (3::nat) dvd length (f x)) \<Longrightarrow> 3 dvd length (concat (map f xs))"
  by (induction xs) simp_all

lemma generateLithophane_appends:
  "\<exists>vs. m_mesh (generateLithophane img g) = m_mesh g @ vs \<and> length vs mod 3 = 0"
proof -
  have "3 dvd length (concat (map (\<lambda>y. lithophaneRow g img y []) [0..<imageHeight img - 1]))"
    by (rule dvd_length_concat) (simp add: length_lithophaneRow)
  then show ?thesis
    by (simp add: generateLithophane_def fold_lithophaneRow mod_eq_0_iff_dvd)
qed

lemma generateBackside_appends:
  "\<exists>vs. m_mesh (generateBackside img g) = m_mesh g @ vs \<and> length vs mod 3 = 0"
  by (simp add: generateBackside_def Let_def)

lemma generateFrame_appends:
  "\<exists>vs. m_mesh (generateFrame w h g) = m_mesh g @ vs \<and> length vs mod 3 = 0"
  by (simp add: generateFrame_def Let_def)

lemma addSingleStabilizer_appends:
  "\<exists>vs. m_mesh (addSingleStabilizer x sh d mt tt zd g) = m_mesh g @ vs \<and> length vs = 96"
  by (simp add: addSingleStabilizer_def Let_def)

lemma generateStabilizers_appends:
  "\<exists>vs. m_mesh (generateStabilizers w h g) = m_mesh g @ vs \<and> length vs mod 3 = 0"
proof -
  define sh where "sh = h * stabilizerHeightFactor (m_config g)"
  define zd :: real where "zd = (if permanentStabilizers (m_config g) then 1 else 0)"
  define g1 where "g1 = addSingleStabilizer 0 sh (sh * 0.5) (minThickness (m_config g))
                          (totalThickness (m_config g)) zd g"
  obtain vs1 where vs1: "m_mesh g1 = m_mesh g @ vs1" "length vs1 = 96"
    unfolding g1_def using addSingleStabilizer_appends by blast
  obtain vs2 where vs2: "m_mesh (addSingleStabilizer (w - min (m_border g) 4) sh (sh * 0.5)
       (minThickness (m_config g)) (totalThickness (m_config g)) zd g1) = m_mesh g1 @ vs2"
       "length vs2 = 96"
    using addSingleStabilizer_appends by blast
  have "m_mesh (generateStabilizers w h g) = m_mesh g @ (vs1 @ vs2)"
    using vs1 vs2 by (simp add: generateStabilizers_def Let_def g1_def sh_def zd_def)
  moreover have "length (vs1 @ vs2) mod 3 = 0"
    using vs1 vs2 by simp
  ultimately show ?thesis
    by (intro exI [of _ "vs1 @ vs2"] conjI)
qed

lemma hanger_fold_appends:
  "\<exists>vs. snd (fold (hangerStep h xd) is (x, m)) = m @ vs \<and> length vs = 48 * length is"
proof (induction "is" arbitrary: x m)
  case Nil
  show ?case by simp
next
  case (Cons i "is")
  obtain x' vs0 where step: "hangerStep h xd i (x, m) = (x', m @ vs0)" "length vs0 = 48"
    by (simp add: hangerStep_def)
  from Cons.IH [of x' "m @ vs0"] obtain vs where
    "snd (fold (hangerStep h xd) is (x', m @ vs0)) = (m @ vs0) @ vs" "length vs = 48 * length is"
    by blast
  then have "snd (fold (hangerStep h xd) (i # is) (x, m)) = m @ (vs0 @ vs)
             \<and> length (vs0 @ vs) = 48 * length (i # is)"
    using step by simp
  then show ?case by blast
qed

lemma generateHangers_appends:
  "\<exists>vs. m_mesh (generateHangers w h g) = m_mesh g @ vs \<and> length vs mod 3 = 0"
proof -
  obtain vs where "snd (fold (hangerStep h (w / real_of_int (hangerCount (m_config g)) / 2))
       [0..<nat (hangerCount (m_config g))]
       (w / real_of_int (hangerCount (m_config g)) / 2 - 4.5, m_mesh g)) = m_mesh g @ vs"
     "length vs = 48 * length [0..<nat (hangerCount (m_config g))]"
    using hanger_fold_appends by blast
  then show ?thesis
    by (simp add: generateHangers_def Let_def)
qed

lemma m_config_generateLithophane: "m_config (generateLithophane img g) = m_config g"
  by (simp add: generateLithophane_def)

lemma m_config_generateBackside: "m_config (generateBackside img g) = m_config g"
  by (simp add: generateBackside_def Let_def)

lemma m_config_generateFrame: "m_config (generateFrame w h g) = m_config g"
  by (simp add: generateFrame_def Let_def)

lemma m_config_addSingleStabilizer: "m_config (addSingleStabilizer x sh d mt tt zd g) = m_config g"
  by (simp add: addSingleStabilizer_def Let_def)

lemma m_config_generateStabilizers: "m_config (generateStabilizers w h g) = m_config g"
  by (simp add: generateStabilizers_def Let_def m_config_addSingleStabilizer)

lemma m_config_precalculate: "m_config (precalculate g img) = m_config g"
  by (simp add: precalculate_def Let_def)

lemmas m_config_stage = m_config_generateLithophane m_config_generateBackside
  m_config_generateFrame m_config_generateStabilizers m_config_precalculate

lemma generate_stages:
  "generate g img =
     (let cfg = m_config g; th = totalHeight g img;
          g2 = generateLithophane img (surfaceState g img);
          g3 = generateBackside img g2;
          g4 = generateFrame (width cfg) th g3;
          g5 = (if enableStabilizers cfg \<and> th > stabilizerThreshold cfg
                then generateStabilizers (width cfg) th g4 else g4)
      in if enableHangers cfg then generateHangers (width cfg) th g5 else g5)"
  by (simp add: generate_def Let_def generateSegmentedBackside_def m_config_stage surfaceState_def)

lemma m_config_surfaceState: "m_config (surfaceState g img) = m_config g"
  by (simp add: surfaceState_def m_config_precalculate)

lemma m_mesh_surfaceState: "m_mesh (surfaceState g img) = []"
  by (simp add: surfaceState_def precalculate_def Let_def)

lemma length_generate:
  assumes "2 \<le> imageHeight img"
  shows "length (m_mesh (generate g img)) =
           12 * (imageWidth img - 1) + (imageHeight img - 1) * (12 + 6 * (imageWidth img - 1))
           + 6 + 84
           + (if enableStabilizers (m_config g) \<and> totalHeight g img > stabilizerThreshold (m_config g)
              then 192 else 0)
           + (if enableHangers (m_config g) then 48 * nat (hangerCount (m_config g)) else 0)"
  using assms
  by (simp add: generate_stages Let_def length_generateHangers m_config_stage
      length_generateStabilizers length_generateFrame length_generateBackside
      length_generateLithophane m_mesh_surfaceState m_config_surfaceState)

subsection \<open>The depth buffer and the vertices of the surface\<close>

lemma length_fold_update: "length (fold (\<lambda>x b. b[f x := v x]) xs b) = length b"
  by (induction xs arbitrary: b) simp_all





lemma length_fold_rows:
  "length (fold (\<lambda>y buf. fold (\<lambda>x buf. buf[y * W + x := v y x]) [0..<W] buf) ys b) = length b"
  by (induction ys arbitrary: b) (simp_all add: length_fold_update)








lemma generateLithophane_mesh:
  "m_mesh (generateLithophane img g) =
     m_mesh g @ concat (map (\<lambda>y. lithophaneRow g img y []) [0..<imageHeight img - 1])"
  by (simp add: generateLithophane_def fold_lithophaneRow)



subsection \<open>The buffer of \<open>generate\<close>, stage by stage\<close>












subsection \<open>The surface built with OpenMP\<close>

text \<open>
  Whatever the schedule, the parallel build produces the vertices of the sequential
  build, row-wise permuted: the same number of vertices and the same points.
\<close>

lemma mset_concat_map_cong:
  "mset xs = mset ys \<Longrightarrow> mset (concat (map f xs)) = mset (concat (map f ys))"
proof -
  have "mset (concat (map f zs)) = (\<Sum>z\<in>#mset zs. mset (f z))" for zs
    by (induction zs) simp_all
  then show "mset xs = mset ys \<Longrightarrow> mset (concat (map f xs)) = mset (concat (map f ys))"
    by simp
qed

lemma generateLithophaneOpenMP_mesh:
  "m_mesh (generateLithophaneOpenMP schedule img g) =
     m_mesh g @ concat (map (\<lambda>y. lithophaneRow g img y []) (concat schedule))"
proof -
  have "fold (\<lambda>localMesh mesh. mesh @ localMesh) ms m = m @ concat ms" for ms and m :: "real QVector3D list"
    by (induction ms arbitrary: m) simp_all
  moreover have "concat (map (\<lambda>rows. fold (lithophaneRow g img) rows []) sched)
      = concat (map (\<lambda>y. lithophaneRow g img y []) (concat sched))" for sched
    by (induction sched) (simp_all add: fold_lithophaneRow)
  ultimately show ?thesis
    by (simp add: generateLithophaneOpenMP_def Let_def)
qed

lemma generateLithophaneOpenMP_permutes:
  assumes "mset (concat schedule) = mset [0..<imageHeight img - 1]"
  shows "mset (m_mesh (generateLithophaneOpenMP schedule img g)) = mset (m_mesh (generateLithophane img g))"
    and "length (m_mesh (generateLithophaneOpenMP schedule img g)) = length (m_mesh (generateLithophane img g))"
    and "set (m_mesh (generateLithophaneOpenMP schedule img g)) = set (m_mesh (generateLithophane img g))"
proof -
  show m: "mset (m_mesh (generateLithophaneOpenMP schedule img g)) = mset (m_mesh (generateLithophane img g))"
    using mset_concat_map_cong [OF assms, of "\<lambda>y. lithophaneRow g img y []"]
    by (simp add: generateLithophaneOpenMP_mesh generateLithophane_mesh)
  show "length (m_mesh (generateLithophaneOpenMP schedule img g)) = length (m_mesh (generateLithophane img g))"
    using m by (rule mset_eq_length)
  show "set (m_mesh (generateLithophaneOpenMP schedule img g)) = set (m_mesh (generateLithophane img g))"
    using m by (rule mset_eq_setD)
qed

subsection \<open>Triangle count of the generated buffer\<close>

text \<open>
  Claim C1. For an image of at least 2 by 2 pixels and any configuration, the buffer that
  \<open>generate\<close> returns has a length that is a positive multiple of three, it holds at least
  \<open>2 * (W - 1) * (H - 1)\<close> triangles, and every stage (surface, backside, frame,
  stabilizers, hangers) extends the buffer it is given by a multiple of three vertices.
\<close>

theorem generate_triangle_count:
  assumes "2 \<le> imageWidth img" and "2 \<le> imageHeight img"
  shows "length (m_mesh (generate g img)) mod 3 = 0
       \<and> 0 < length (m_mesh (generate g img))
       \<and> 2 * (imageWidth img - 1) * (imageHeight img - 1) \<le> length (m_mesh (generate g img)) div 3
       \<and> (\<forall>s. \<exists>vs. m_mesh (generateLithophane img s) = m_mesh s @ vs \<and> length vs mod 3 = 0)
       \<and> (\<forall>s. \<exists>vs. m_mesh (generateBackside img s) = m_mesh s @ vs \<and> length vs mod 3 = 0)
       \<and> (\<forall>s. \<exists>vs. m_mesh (generateSegmentedBackside img s) = m_mesh s @ vs \<and> length vs mod 3 = 0)
       \<and> (\<forall>s w h. \<exists>vs. m_mesh (generateFrame w h s) = m_mesh s @ vs \<and> length vs mod 3 = 0)
       \<and> (\<forall>s w h. \<exists>vs. m_mesh (generateStabilizers w h s) = m_mesh s @ vs \<and> length vs mod 3 = 0)
       \<and> (\<forall>s w h. \<exists>vs. m_mesh (generateHangers w h s) = m_mesh s @ vs \<and> length vs mod 3 = 0)"
proof -
  define k where "k = imageWidth img - 1"
  define m where "m = imageHeight img - 1"
  define extra :: nat where "extra =
     (if enableStabilizers (m_config g) \<and> totalHeight g img > stabilizerThreshold (m_config g)
      then 64 else 0)
     + (if enableHangers (m_config g) then 16 * nat (hangerCount (m_config g)) else 0)"
  have "length (m_mesh (generate g img)) = 3 * (4 * k + m * (4 + 2 * k) + 30 + extra)"
    using assms(2) by (simp add: length_generate k_def m_def extra_def)
  then have len: "length (m_mesh (generate g img)) mod 3 = 0"
    "0 < length (m_mesh (generate g img))"
    "length (m_mesh (generate g img)) div 3 = 4 * k + m * (4 + 2 * k) + 30 + extra"
    by simp_all
  have "2 * k * m \<le> 4 * k + m * (4 + 2 * k) + 30 + extra"
    by (simp add: algebra_simps)
  with len have count: "2 * (imageWidth img - 1) * (imageHeight img - 1)
      \<le> length (m_mesh (generate g img)) div 3"
    by (simp add: k_def m_def)
  show ?thesis
    using len(1,2) count generateLithophane_appends generateBackside_appends
      generateFrame_appends generateStabilizers_appends generateHangers_appends
    by (simp add: generateSegmentedBackside_def)
qed

theorem generate_triangle_count_witness:
  "2 \<le> imageWidth (uniformImage 4 4 128) \<and> 2 \<le> imageHeight (uniformImage 4 4 128)
   \<and> length (m_mesh (generate defaultGenerator (uniformImage 4 4 128))) mod 3 = 0
   \<and> 0 < length (m_mesh (generate defaultGenerator (uniformImage 4 4 128)))
   \<and> 2 * (imageWidth (uniformImage 4 4 128) - 1) * (imageHeight (uniformImage 4 4 128) - 1)
        \<le> length (m_mesh (generate defaultGenerator (uniformImage 4 4 128))) div 3"
proof -
  have w: "2 \<le> imageWidth (uniformImage 4 4 128)" and h: "2 \<le> imageHeight (uniformImage 4 4 128)"
    by (simp_all add: uniformImage_def)
  from generate_triangle_count [OF w h, of defaultGenerator] w h show ?thesis
    by blast
qed

subsection \<open>Placement of the surface vertices\<close>



subsection \<open>Vertical flip of the relief\<close>



subsection \<open>Depth of a sample\<close>




subsection \<open>When stabilizers are generated\<close>



subsection \<open>Size of the frame\<close>

text \<open>
  Claim C8 (as stated: the frame consists of 48 triangles). In the scenario of the
  specification the frame stage does not append \<open>3 * 48\<close> vertices.
\<close>

theorem frame_triangle_count_counterexample:
  "length (m_mesh (generateFrame 50 50 scenarioGenerator)) \<noteq>
     length (m_mesh scenarioGenerator) + 3 * 48"
  by (simp add: length_generateFrame)

text \<open>
  Claim C8, amended. For every state of the generator and all values of width and
  height the frame stage appends exactly 28 triangles (84 vertices, 14 quads).
\<close>

theorem frame_triangle_count:
  "\<exists>vs. m_mesh (generateFrame w h g) = m_mesh g @ vs \<and> length vs = 3 * 28"
  by (simp add: generateFrame_def Let_def)

section \<open>Properties of the exporters\<close>

subsection \<open>Bytes of a binary STL file\<close>

lemma length_le32: "length (le32 w) = 4"
  by (simp add: le32_def)

lemma length_le16: "length (le16 w) = 2"
  by (simp add: le16_def)

lemma fromLe32_le32: "fromLe32 (le32 w @ rest) = w"
proof -
  have "(ucast (ucast w :: byte) :: 32 word) OR push_bit 8 (ucast (ucast (drop_bit 8 w) :: byte))
          OR push_bit 16 (ucast (ucast (drop_bit 16 w) :: byte))
          OR push_bit 24 (ucast (ucast (drop_bit 24 w) :: byte)) = w"
  proof (rule bit_word_eqI)
    fix n assume n: "n < LENGTH(32)"
    consider "n < 8" | "8 \<le> n" "n < 16" | "16 \<le> n" "n < 24" | "24 \<le> n" "n < 32"
      using n by fastforce
    then show "bit ((ucast (ucast w :: byte) :: 32 word) OR push_bit 8 (ucast (ucast (drop_bit 8 w) :: byte))
          OR push_bit 16 (ucast (ucast (drop_bit 16 w) :: byte))
          OR push_bit 24 (ucast (ucast (drop_bit 24 w) :: byte))) n = bit w n"
      by cases (auto simp add: bit_simps)
  qed
  then show ?thesis
    by (simp add: fromLe32_def le32_def)
qed

lemma le32_zero: "le32 0 = [0, 0, 0, 0]"
  by (simp add: le32_def)

lemma le16_zero: "le16 0 = [0, 0]"
  by (simp add: le16_def)

lemma length_binaryVertex: "length (binaryVertex lib v) = 12"
  by (simp add: binaryVertex_def length_le32)

lemma binaryTriangle_eq:
  "binaryTriangle lib mesh k =
     replicate 12 0 @ binaryVertex lib (mesh ! (3 * k)) @ binaryVertex lib (mesh ! (3 * k + 1))
       @ binaryVertex lib (mesh ! (3 * k + 2)) @ [0, 0]"
  by (simp add: binaryTriangle_def Let_def le32_zero le16_zero upt_rec numeral_eq_Suc)

lemma length_binaryTriangle: "length (binaryTriangle lib mesh k) = 50"
  by (simp add: binaryTriangle_eq length_binaryVertex)

lemma stlHeader_eq: "stlHeader = toBytes ''LithoMaker Export'' @ replicate 63 0"
  by (simp add: stlHeader_def toBytes_def numeral_eq_Suc)

lemma length_stlHeader: "length stlHeader = 80"
  by (simp add: stlHeader_eq toBytes_def)

lemma readVertex_binaryVertex:
  "readVertex (binaryVertex lib v @ rest) = map_QVector3D (floatBits lib) v"
proof -
  have 1: "take 4 (le32 a @ xs) = le32 a" for a :: "32 word" and xs
    by (simp add: length_le32)
  have 2: "drop 4 (le32 a @ xs) = xs" for a :: "32 word" and xs
    by (simp add: length_le32)
  have 3: "drop 8 (le32 a @ le32 b @ xs) = xs" for a b :: "32 word" and xs
    by (simp add: length_le32)
  have f: "fromLe32 (le32 a) = a" for a :: "32 word"
    using fromLe32_le32 [of a "[]"] by simp
  show ?thesis
    by (cases v) (simp add: readVertex_def binaryVertex_def length_le32 f)
qed

lemma block_of_concat:
  assumes "\<And>x. x \<in> set xs \<Longrightarrow> length (f x) = c" and "k < length xs"
  shows "take c (drop (c * k) (concat (map f xs))) = f (xs ! k)"
  using assms
proof (induction xs arbitrary: k)
  case Nil
  then show ?case by simp
next
  case (Cons a xs)
  show ?case
  proof (cases k)
    case 0
    then show ?thesis using Cons.prems(1) [of a] by simp
  next
    case (Suc j)
    have "take c (drop (c * j) (concat (map f xs))) = f (xs ! j)"
      using Cons.prems Suc by (intro Cons.IH) auto
    then show ?thesis
      using Cons.prems(1) [of a] by (simp add: Suc)
  qed
qed

lemma triangle_count_rounds:
  assumes "length mesh mod 3 = 0"
  shows "(length mesh + 2) div 3 = length mesh div 3"
  using assms by presburger

lemma length_binaryContent:
  assumes "length mesh mod 3 = 0"
  shows "length (binaryContent lib mesh) = 84 + 50 * (length mesh div 3)"
proof -
  have "length (concat (map (binaryTriangle lib mesh) [0..<length mesh div 3]))
          = 50 * length [0..<length mesh div 3]"
    by (rule length_concat_const) (rule length_binaryTriangle)
  then show ?thesis
    unfolding binaryContent_def Let_def triangle_count_rounds [OF assms]
    by (simp add: length_stlHeader length_le32)
qed

lemma readTriangles_binary:
  assumes "3 * (m + n) \<le> length mesh"
  shows "readTriangles n (concat (map (binaryTriangle lib mesh) [m..<m + n])) =
           Some (map (map_QVector3D (floatBits lib)) (take (3 * n) (drop (3 * m) mesh)))"
  using assms
proof (induction n arbitrary: m)
  case 0
  show ?case by simp
next
  case (Suc n)
  let ?rest = "concat (map (binaryTriangle lib mesh) [Suc m..<Suc m + n])"
  let ?bits = "map_QVector3D (floatBits lib)"
  have range: "[m..<m + Suc n] = m # [Suc m..<Suc m + n]"
    by (simp add: upt_rec)
  have ih: "readTriangles n ?rest = Some (map ?bits (take (3 * n) (drop (3 * Suc m) mesh)))"
    using Suc.prems by (intro Suc.IH) simp
  have d50: "drop 50 (binaryTriangle lib mesh m @ ?rest) = ?rest"
    by (simp add: length_binaryTriangle)
  have v0: "readVertex (drop 12 (binaryTriangle lib mesh m @ ?rest)) = ?bits (mesh ! (3 * m))"
    using readVertex_binaryVertex [of lib "mesh ! (3 * m)"]
    by (simp add: binaryTriangle_eq)
  have v1: "readVertex (drop 24 (binaryTriangle lib mesh m @ ?rest)) = ?bits (mesh ! (3 * m + 1))"
    using readVertex_binaryVertex [of lib "mesh ! (3 * m + 1)"]
    by (simp add: binaryTriangle_eq length_binaryVertex)
  have v2: "readVertex (drop 36 (binaryTriangle lib mesh m @ ?rest)) = ?bits (mesh ! (3 * m + 2))"
    using readVertex_binaryVertex [of lib "mesh ! (3 * m + 2)"]
    by (simp add: binaryTriangle_eq length_binaryVertex)
  have len: "\<not> length (binaryTriangle lib mesh m @ ?rest) < 50"
    by (simp add: length_binaryTriangle)
  have split: "take (3 * Suc n) (drop (3 * m) mesh) =
      mesh ! (3 * m) # mesh ! (3 * m + 1) # mesh ! (3 * m + 2) # take (3 * n) (drop (3 * Suc m) mesh)"
  proof -
    have a: "drop (3 * m) mesh = mesh ! (3 * m) # drop (Suc (3 * m)) mesh"
      using Suc.prems by (intro Cons_nth_drop_Suc [symmetric]) simp
    have b: "drop (Suc (3 * m)) mesh = mesh ! (3 * m + 1) # drop (Suc (Suc (3 * m))) mesh"
      using Suc.prems Cons_nth_drop_Suc [of "Suc (3 * m)" mesh] by simp
    have m3: "3 * Suc m = Suc (Suc (Suc (3 * m)))" by simp
    have c: "drop (Suc (Suc (3 * m))) mesh = mesh ! (3 * m + 2) # drop (3 * Suc m) mesh"
      unfolding m3 using Suc.prems Cons_nth_drop_Suc [of "Suc (Suc (3 * m))" mesh] by simp
    have n3: "3 * Suc n = Suc (Suc (Suc (3 * n)))" by simp
    show ?thesis
      unfolding a b c n3 by (simp only: take_Suc_Cons)
  qed
  show ?case
    unfolding range split
    by (simp only: list.map concat.simps readTriangles.simps len if_False d50 ih v0 v1 v2
          option.case)
qed

lemma readBinaryStl_binaryContent:
  assumes "length mesh mod 3 = 0" "length mesh < 2 ^ 31"
  shows "readBinaryStl (binaryContent lib mesh) =
           Some (length mesh div 3, map (map_QVector3D (floatBits lib)) mesh)"
proof -
  let ?n = "length mesh div 3"
  let ?body = "concat (map (binaryTriangle lib mesh) [0..<?n])"
  have content: "binaryContent lib mesh = stlHeader @ le32 (of_nat ?n) @ ?body"
    unfolding binaryContent_def Let_def triangle_count_rounds [OF assms(1)] by simp
  have n3: "3 * ?n = length mesh"
    using assms(1) by presburger
  have "?n < 2 ^ 32" using assms(2) by simp
  then have count: "unat (of_nat ?n :: 32 word) = ?n"
    by (intro of_nat_inverse) simp_all
  have body: "readTriangles ?n ?body = Some (map (map_QVector3D (floatBits lib)) mesh)"
    using readTriangles_binary [of 0 ?n mesh lib] n3 by simp
  have "take 4 (drop 80 (binaryContent lib mesh)) = le32 (of_nat ?n)"
    by (simp add: content length_stlHeader length_le32)
  moreover have "drop 84 (binaryContent lib mesh) = ?body"
    by (simp add: content length_stlHeader length_le32)
  moreover have "\<not> length (binaryContent lib mesh) < 84"
    by (simp add: length_binaryContent [OF assms(1)])
  moreover have "fromLe32 (le32 (of_nat ?n :: 32 word)) = of_nat ?n"
    using fromLe32_le32 [of "of_nat ?n" "[]"] by simp
  ultimately show ?thesis
    by (simp add: readBinaryStl_def Let_def count body)
qed

subsection \<open>The deduplication loop\<close>





subsection \<open>Layout of the binary STL file\<close>

text \<open>
  Claim C6. For a non-empty buffer of \<open>n\<close> triangles that the target file can be opened
  for, the binary STL export succeeds and writes \<open>84 + 50 * n\<close> bytes: the 80-byte header
  (the text "LithoMaker Export" padded with zeros), the little-endian 32-bit count
  \<open>n\<close>, and for triangle \<open>k\<close> twelve zero bytes of normal, the three vertices
  \<open>3 * k\<close>, \<open>3 * k + 1\<close>, \<open>3 * k + 2\<close> of the buffer as the little-endian bits of their
  floats, and two zero bytes. Reading the file back yields \<open>n\<close> and, bit for bit, the
  vertices of the buffer. The buffer has fewer than \<open>2^31\<close> vertices, as the \<open>int\<close> loop
  counter of the exporter requires.
\<close>

theorem binary_stl_layout:
  assumes "mesh \<noteq> []" "length mesh mod 3 = 0" "length mesh < 2 ^ 31" "canOpen fs filePath"
  shows "exportMesh (StlExporter Binary) lib mesh filePath fs =
           (\<lparr>success = True, errorMessage = [],
             bytesWritten = 84 + 50 * int (length mesh div 3)\<rparr>,
            fs\<lparr>files := (files fs)(filePath \<mapsto> binaryContent lib mesh)\<rparr>)
       \<and> length (binaryContent lib mesh) = 84 + 50 * (length mesh div 3)
       \<and> take 80 (binaryContent lib mesh) = toBytes ''LithoMaker Export'' @ replicate 63 0
       \<and> take 4 (drop 80 (binaryContent lib mesh)) = le32 (of_nat (length mesh div 3))
       \<and> unat (of_nat (length mesh div 3) :: 32 word) = length mesh div 3
       \<and> (\<forall>k < length mesh div 3.
             take 50 (drop (84 + 50 * k) (binaryContent lib mesh)) =
               replicate 12 0 @ binaryVertex lib (mesh ! (3 * k))
                 @ binaryVertex lib (mesh ! (3 * k + 1))
                 @ binaryVertex lib (mesh ! (3 * k + 2)) @ [0, 0])
       \<and> readBinaryStl (binaryContent lib mesh) =
             Some (length mesh div 3, map (map_QVector3D (floatBits lib)) mesh)"
proof -
  let ?n = "length mesh div 3"
  let ?body = "concat (map (binaryTriangle lib mesh) [0..<?n])"
  have content: "binaryContent lib mesh = stlHeader @ le32 (of_nat ?n) @ ?body"
    unfolding binaryContent_def Let_def triangle_count_rounds [OF assms(2)] by simp
  have len: "length (binaryContent lib mesh) = 84 + 50 * ?n"
    by (rule length_binaryContent [OF assms(2)])
  have 1: "exportMesh (StlExporter Binary) lib mesh filePath fs =
           (\<lparr>success = True, errorMessage = [], bytesWritten = 84 + 50 * int ?n\<rparr>,
            fs\<lparr>files := (files fs)(filePath \<mapsto> binaryContent lib mesh)\<rparr>)"
    using assms(1,2,4)
    by (simp add: StlExporter_exportMesh_def exportBinary_def Let_def writeFile_def len)
  have 3: "take 80 (binaryContent lib mesh) = toBytes ''LithoMaker Export'' @ replicate 63 0"
    using length_stlHeader by (simp add: content stlHeader_eq)
  have 4: "take 4 (drop 80 (binaryContent lib mesh)) = le32 (of_nat ?n)"
    by (simp add: content length_stlHeader length_le32)
  have "?n < 2 ^ 32" using assms(3) by simp
  then have 5: "unat (of_nat ?n :: 32 word) = ?n"
    by (intro of_nat_inverse) simp_all
  have 6: "\<forall>k < ?n. take 50 (drop (84 + 50 * k) (binaryContent lib mesh)) =
               replicate 12 0 @ binaryVertex lib (mesh ! (3 * k))
                 @ binaryVertex lib (mesh ! (3 * k + 1))
                 @ binaryVertex lib (mesh ! (3 * k + 2)) @ [0, 0]"
  proof (intro allI impI)
    fix k assume k: "k < ?n"
    have "drop (84 + 50 * k) (binaryContent lib mesh) = drop (50 * k) ?body"
      by (simp add: content length_stlHeader length_le32)
    moreover have "take 50 (drop (50 * k) ?body) = binaryTriangle lib mesh ([0..<?n] ! k)"
      using k by (intro block_of_concat) (simp_all add: length_binaryTriangle)
    ultimately show "take 50 (drop (84 + 50 * k) (binaryContent lib mesh)) =
               replicate 12 0 @ binaryVertex lib (mesh ! (3 * k))
                 @ binaryVertex lib (mesh ! (3 * k + 1))
                 @ binaryVertex lib (mesh ! (3 * k + 2)) @ [0, 0]"
      using k by (simp add: binaryTriangle_eq)
  qed
  have 7: "readBinaryStl (binaryContent lib mesh) =
             Some (?n, map (map_QVector3D (floatBits lib)) mesh)"
    by (rule readBinaryStl_binaryContent [OF assms(2,3)])
  from 1 len 3 4 5 6 7 show ?thesis by (intro conjI)
qed

theorem binary_stl_layout_witness:
  "exampleTriangle \<noteq> [] \<and> length exampleTriangle mod 3 = 0 \<and> length exampleTriangle < 2 ^ 31
   \<and> canOpen emptyFs ''out.stl''
   \<and> bytesWritten (fst (exportMesh (StlExporter Binary) exampleRuntime exampleTriangle ''out.stl'' emptyFs))
       = 134
   \<and> length (binaryContent exampleRuntime exampleTriangle) = 134
   \<and> readBinaryStl (binaryContent exampleRuntime exampleTriangle) = Some (1, exampleTriangle)"
proof -
  have h: "exampleTriangle \<noteq> []" "length exampleTriangle mod 3 = 0"
    "length exampleTriangle < 2 ^ 31" "canOpen emptyFs ''out.stl''"
    by (simp_all add: exampleTriangle_def emptyFs_def)
  have m: "map (map_QVector3D (floatBits exampleRuntime)) exampleTriangle = exampleTriangle"
    by (simp add: exampleTriangle_def exampleRuntime_def)
  have n: "length exampleTriangle div 3 = 1"
    by (simp add: exampleTriangle_def)
  from binary_stl_layout [OF h, of exampleRuntime] h show ?thesis
    by (simp add: m n)
qed

subsection \<open>Deduplicated vertices of the OBJ and the 3MF file\<close>



subsection \<open>Validation of the buffer by the exporters\<close>




subsection \<open>The archiver of the 3MF exporter\<close>

text \<open>
  Claim C9. The exporter decides on the exit code alone. For a valid buffer and an
  archiver that is still running when the bounded wait ends (its exit code then reads 0
  and no archive exists), \<open>exportMesh\<close> reports success with \<open>bytesWritten = 0\<close>.
\<close>

theorem threemf_timeout_reported_as_success:
  "\<not> finishedInTime (runArchiver stalledRuntime emptyFs (tempDir stalledRuntime) ''out.3mf'')
   \<and> exampleTriangle \<noteq> [] \<and> length exampleTriangle mod 3 = 0
   \<and> success (fst (exportMesh ThreeMfExporter stalledRuntime exampleTriangle ''out.3mf'' emptyFs))
   \<and> bytesWritten (fst (exportMesh ThreeMfExporter stalledRuntime exampleTriangle ''out.3mf'' emptyFs)) = 0
   \<and> files (snd (exportMesh ThreeMfExporter stalledRuntime exampleTriangle ''out.3mf'' emptyFs))
        ''out.3mf'' = None"
  by (simp add: stalledRuntime_def exampleRuntime_def exampleTriangle_def emptyFs_def
        ThreeMfExporter_exportMesh_def Let_def writeIfOpen_def writeFile_def removeRecursively_def)

text \<open>
  Whatever the archiver does, no file below the scratch directory is left when
  \<open>exportMesh\<close> returns for a valid buffer.
\<close>

lemma scratch_directory_removed:
  assumes "mesh \<noteq> []" "length mesh mod 3 = 0"
    and "take (length (tempDir lib) + 1) p = tempDir lib @ ''/''"
  shows "files (snd (exportMesh ThreeMfExporter lib mesh filePath fs)) p = None"
  using assms
  by (simp add: ThreeMfExporter_exportMesh_def Let_def removeRecursively_def)

end
